theory Spec2Isabelle
  imports Main "HOL-Library.Word"
begin

section \<open>Data model of azure/login/login.go\<close>

text \<open>
  Go's \<open>url.Values\<close> is \<open>map[string][]string\<close>: a key is either absent or bound to a
  slice of strings.
\<close>

type_synonym url_Values = "string \<rightharpoonup> string list"

text \<open>
  The provider's token response. \<open>ExpiresIn\<close> and \<open>ExtExpiresIn\<close> are Go \<open>int\<close>s,
  64 bits wide on the platforms the login runs on; they are read as two's complement
  with \<open>sint\<close>.
\<close>

record azureToken =
  Type :: string
  Scope :: string
  ExpiresIn :: "64 word"
  ExtExpiresIn :: "64 word"
  AccessToken :: string
  RefreshToken :: string
  Foci :: string

record tenantValue =
  TenantID :: string

record tenantResult =
  Value :: "tenantValue list"

text \<open>
  \<open>oauth2.Token\<close> with the four fields login.go reads and writes. An instant
  (\<open>time.Time\<close>) is the number of nanoseconds since Go's zero instant, so the zero
  \<open>time.Time\<close> is \<open>0\<close>.
\<close>

record oauth2_Token =
  AccessToken :: string
  TokenType :: string
  RefreshToken :: string
  Expiry :: int

record TokenInfo =
  TenantID :: string
  Token :: oauth2_Token

text \<open>
  Errors as values. \<open>Errorf f args\<close> is \<open>fmt.Errorf(f, args...)\<close> with its format
  string and its operands (each a string slice) kept as they are passed;
  \<open>Wrap e m\<close> is \<open>errors.Wrap(e, m)\<close>; \<open>ErrLoginFailed\<close> is the sentinel of package
  errdefs; \<open>NotFound\<close> is the store's answer when nothing was persisted;
  \<open>Foreign m\<close> is an error made by a collaborator (listener, HTTP client, JSON
  decoder, file system, process spawn).
\<close>

datatype error =
    ErrLoginFailed
  | NotFound
  | Errorf string "string list list"
  | Wrap error string
  | Foreign string

text \<open>
  A call either returns, panics (Go's run-time fault) or ends the process
  (\<open>log.Fatal\<close> prints the error and calls \<open>os.Exit(1)\<close>).
\<close>

datatype 'a outcome =
    Returned 'a
  | Panic string
  | Exit error

text \<open>What the run did to the outside world, in order.\<close>

datatype event =
    StartLoginServer
  | ExecStart string "string list"
  | QueryToken url_Values string
  | QueryAuthorizationAPI string string
  | ReadToken
  | WriteLoginInfo TokenInfo
  | Println string

record world =
  trace :: "event list"
  store :: "TokenInfo option"

text \<open>The two cases of the \<open>select\<close> in \<open>Login\<close>.\<close>

datatype select_case =
    ctx_Done
  | queryCh url_Values

text \<open>
  The collaborators of login.go that are not part of it, as the answers they give:
  the operating system (\<open>runtime.GOOS\<close>, \<open>exec.Command(...).Start()\<close>), the callback
  listener, the \<open>select\<close> between cancellation and the callback, the two HTTP calls
  of the \<open>apiHelper\<close> interface, \<open>json.Unmarshal\<close> into a \<open>tenantResult\<close>, the
  outcome of a store write, and the clock, which may show a different instant after
  every event.
\<close>

record env =
  goos :: string
  exec_Start_r :: "string \<Rightarrow> string list \<Rightarrow> error option"
  startLoginServer_r :: "error + int"
  randomString_r :: string
  select_r :: select_case
  queryToken_r :: "url_Values \<Rightarrow> string \<Rightarrow> error + azureToken"
  queryAuthorizationAPI_r :: "string \<Rightarrow> string \<Rightarrow> string \<times> int \<times> error option"
  json_Unmarshal_r :: "string \<Rightarrow> error + tenantResult"
  writeLoginInfo_r :: "TokenInfo \<Rightarrow> error option"
  time_Now_r :: "event list \<Rightarrow> int"

section \<open>Constants\<close>

definition authorizationURL :: string where
  "authorizationURL = ''https://management.azure.com/tenants?api-version=2019-11-01''"

definition scopes :: string where
  "scopes = ''offline_access https://management.azure.com/.default''"

definition clientID :: string where
  "clientID = ''04b07795-8ddb-461a-bbee-02f9e1bf7b46''"

text \<open>\<open>fmt.Sprintf(authorizeFormat, clientID, redirectURL, state, scopes)\<close>.\<close>

definition authorizeFormat :: "string \<Rightarrow> string \<Rightarrow> string \<Rightarrow> string \<Rightarrow> string" where
  "authorizeFormat cid redirect st sc =
     ''https://login.microsoftonline.com/organizations/oauth2/v2.0/authorize?response_type=code&client_id=''
     @ cid @ ''&redirect_uri='' @ redirect @ ''&state='' @ st
     @ ''&prompt=select_account&response_mode=query&scope='' @ sc"

text \<open>\<open>time.Second\<close> and oauth2's \<open>expiryDelta\<close> (10 seconds), in nanoseconds.\<close>

definition time_Second :: "64 word" where
  "time_Second = 1000000000"

definition expiryDelta :: int where
  "expiryDelta = 10 * 1000000000"

definition zero_Token :: oauth2_Token where
  "zero_Token = \<lparr>AccessToken = [], TokenType = [], RefreshToken = [], Expiry = 0\<rparr>"

section \<open>Library functions login.go calls\<close>

text \<open>\<open>strconv.Itoa\<close>: the decimal digits of an integer.\<close>

fun decimal :: "nat \<Rightarrow> string" where
  "decimal n =
     (if n < 10 then [''0123456789'' ! n]
      else decimal (n div 10) @ [''0123456789'' ! (n mod 10)])"

declare decimal.simps [simp del]

definition Itoa :: "int \<Rightarrow> string" where
  "Itoa i = (if i < 0 then CHR ''-'' # decimal (nat (- i)) else decimal (nat i))"

text \<open>
  \<open>Token.Valid\<close> and \<open>Token.expired\<close> of golang.org/x/oauth2, the library whose
  \<open>Token\<close> type login.go stores. They are not part of login.go; the definitions follow
  the library: a token with a zero \<open>Expiry\<close> never expires; any other token is
  expired when \<open>Expiry\<close> moved back by \<open>expiryDelta\<close> is before the clock; a token is
  valid when its access token is not empty and it is not expired.
\<close>

definition expired :: "oauth2_Token \<Rightarrow> int \<Rightarrow> bool" where
  "expired t now = (if Expiry t = 0 then False else Expiry t - expiryDelta < now)"

definition Valid :: "oauth2_Token \<Rightarrow> int \<Rightarrow> bool" where
  "Valid t now = (AccessToken t \<noteq> [] \<and> \<not> expired t now)"

section \<open>Collaborators as state transformers\<close>

definition log_event :: "event \<Rightarrow> world \<Rightarrow> world" where
  "log_event e w = w\<lparr>trace := trace w @ [e]\<rparr>"

definition time_Now :: "env \<Rightarrow> world \<Rightarrow> int" where
  "time_Now env w = time_Now_r env (trace w)"

definition startLoginServer :: "env \<Rightarrow> world \<Rightarrow> (error + int) \<times> world" where
  "startLoginServer env w = (startLoginServer_r env, log_event StartLoginServer w)"

definition exec_Start :: "env \<Rightarrow> string \<Rightarrow> string list \<Rightarrow> world \<Rightarrow> error option \<times> world" where
  "exec_Start env name args w = (exec_Start_r env name args, log_event (ExecStart name args) w)"

definition queryToken ::
  "env \<Rightarrow> url_Values \<Rightarrow> string \<Rightarrow> world \<Rightarrow> (error + azureToken) \<times> world" where
  "queryToken env data tenantID w =
     (queryToken_r env data tenantID, log_event (QueryToken data tenantID) w)"

definition queryAuthorizationAPI ::
  "env \<Rightarrow> string \<Rightarrow> string \<Rightarrow> world \<Rightarrow> (string \<times> int \<times> error option) \<times> world" where
  "queryAuthorizationAPI env url authorizationHeader w =
     (queryAuthorizationAPI_r env url authorizationHeader,
      log_event (QueryAuthorizationAPI url authorizationHeader) w)"

text \<open>
  Modelled from the spec: the Credential Store (\<open>tokenStore\<close>, whose file is not among
  the sources). \<open>read() -> Credential | NotFound error\<close>; \<open>write(Credential) -> success
  | IOError\<close>, where a write fully replaces the prior contents or changes nothing.
\<close>

definition readToken :: "env \<Rightarrow> world \<Rightarrow> (error + TokenInfo) \<times> world" where
  "readToken env w =
     (case store w of
        None \<Rightarrow> (Inl NotFound, log_event ReadToken w)
      | Some info \<Rightarrow> (Inr info, log_event ReadToken w))"

definition writeLoginInfo :: "env \<Rightarrow> TokenInfo \<Rightarrow> world \<Rightarrow> error option \<times> world" where
  "writeLoginInfo env info w =
     (case writeLoginInfo_r env info of
        Some err \<Rightarrow> (Some err, log_event (WriteLoginInfo info) w)
      | None \<Rightarrow> (None, (log_event (WriteLoginInfo info) w)\<lparr>store := Some info\<rparr>))"

section \<open>login.go\<close>

text \<open>
  \<open>toOAuthToken\<close>: \<open>time.Duration(token.ExpiresIn) * time.Second\<close> is a product of
  64-bit integers and wraps around; \<open>time.Now().Add\<close> then moves the clock by that many
  nanoseconds.
\<close>

definition toOAuthToken :: "env \<Rightarrow> azureToken \<Rightarrow> world \<Rightarrow> oauth2_Token" where
  "toOAuthToken env token w =
     (let expireTime = time_Now env w + sint (ExpiresIn token * time_Second)
      in \<lparr>AccessToken = azureToken.AccessToken token,
          TokenType = Type token,
          RefreshToken = azureToken.RefreshToken token,
          Expiry = expireTime\<rparr>)"

text \<open>The form \<open>refreshToken\<close> submits.\<close>

definition refresh_data :: "string \<Rightarrow> url_Values" where
  "refresh_data currentRefreshToken =
     [''grant_type'' \<mapsto> [''refresh_token''],
      ''client_id'' \<mapsto> [clientID],
      ''scope'' \<mapsto> [scopes],
      ''refresh_token'' \<mapsto> [currentRefreshToken]]"

definition refreshToken ::
  "env \<Rightarrow> string \<Rightarrow> string \<Rightarrow> world \<Rightarrow> (oauth2_Token \<times> error option) \<times> world" where
  "refreshToken env currentRefreshToken tenantID w =
     (case queryToken env (refresh_data currentRefreshToken) tenantID w of
        (Inl err, w1) \<Rightarrow> ((zero_Token, Some err), w1)
      | (Inr token, w1) \<Rightarrow> ((toOAuthToken env token w1, None), w1))"

definition GetValidToken :: "env \<Rightarrow> world \<Rightarrow> (oauth2_Token \<times> error option) \<times> world" where
  "GetValidToken env w =
     (case readToken env w of
        (Inl err, w1) \<Rightarrow> ((zero_Token, Some err), w1)
      | (Inr loginInfo, w1) \<Rightarrow>
          (let token = Token loginInfo in
           if Valid token (time_Now env w1) then ((token, None), w1)
           else
             (let tenantID = TenantID loginInfo in
              case refreshToken env (RefreshToken token) tenantID w1 of
                ((token', Some err), w2) \<Rightarrow>
                  ((zero_Token,
                    Some (Wrap err ''access token request failed. Maybe you need to login to azure again.'')),
                   w2)
              | ((token', None), w2) \<Rightarrow>
                  (case writeLoginInfo env \<lparr>TenantID = tenantID, Token = token'\<rparr> w2 of
                     (Some err, w3) \<Rightarrow> ((zero_Token, Some err), w3)
                   | (None, w3) \<Rightarrow> ((token', None), w3)))))"

definition openbrowser :: "env \<Rightarrow> string \<Rightarrow> world \<Rightarrow> unit outcome \<times> world" where
  "openbrowser env url w =
     (case (if goos env = ''linux'' then exec_Start env ''xdg-open'' [url] w
            else if goos env = ''windows'' then
              exec_Start env ''rundll32'' [''url.dll,FileProtocolHandler'', url] w
            else if goos env = ''darwin'' then exec_Start env ''open'' [url] w
            else (Some (Errorf ''unsupported platform'' []), w)) of
        (Some err, w1) \<Rightarrow> (Exit err, w1)
      | (None, w1) \<Rightarrow> (Returned (), w1))"

text \<open>
  Modelled from the spec: \<open>openAzureLoginPage\<close> of the production \<open>apiHelper\<close>
  (\<open>azureAPIHelper\<close>, whose file is not among the sources). Step 2 of Login: open the
  provider's authorization URL in the browser, embedding the client identifier, the
  redirect URI, a fresh opaque state value and the requested scopes.
\<close>

definition openAzureLoginPage :: "env \<Rightarrow> string \<Rightarrow> world \<Rightarrow> unit outcome \<times> world" where
  "openAzureLoginPage env redirectURL w =
     openbrowser env (authorizeFormat clientID redirectURL (randomString_r env) scopes) w"

text \<open>The form \<open>Login\<close> submits to exchange the authorization code.\<close>

definition code_data :: "string list \<Rightarrow> string \<Rightarrow> url_Values" where
  "code_data code redirectURL =
     [''grant_type'' \<mapsto> [''authorization_code''],
      ''client_id'' \<mapsto> [clientID],
      ''code'' \<mapsto> code,
      ''scope'' \<mapsto> [scopes],
      ''redirect_uri'' \<mapsto> [redirectURL]]"

text \<open>
  The body of the \<open>queryCh\<close> case of the \<open>select\<close> (lines 95 to 142).
  \<open>tenantResult.Value[0]\<close> on an empty slice is Go's index-out-of-range panic.
\<close>

definition Login_callback ::
  "env \<Rightarrow> string \<Rightarrow> url_Values \<Rightarrow> world \<Rightarrow> error option outcome \<times> world" where
  "Login_callback env redirectURL qsValues w =
     (case qsValues ''error'' of
        Some errorMsg \<Rightarrow> (Returned (Some (Errorf ''login failed : %s'' [errorMsg])), w)
      | None \<Rightarrow>
          (case qsValues ''code'' of
             None \<Rightarrow> (Returned (Some ErrLoginFailed), w)
           | Some code \<Rightarrow>
               (case queryToken env (code_data code redirectURL) ''organizations'' w of
                  (Inl err, w1) \<Rightarrow>
                    (Returned (Some (Wrap err ''Access token request failed'')), w1)
                | (Inr token, w1) \<Rightarrow>
                    (case queryAuthorizationAPI env authorizationURL
                            (''Bearer '' @ azureToken.AccessToken token) w1 of
                       ((bits, statusCode, Some err), w2) \<Rightarrow>
                         (Returned (Some (Wrap err ''login failed'')), w2)
                     | ((bits, statusCode, None), w2) \<Rightarrow>
                         if statusCode = 200 then
                           (case json_Unmarshal_r env bits of
                              Inl err \<Rightarrow> (Returned (Some (Wrap err ''login failed'')), w2)
                            | Inr tenantResult \<Rightarrow>
                                (case Value tenantResult of
                                   [] \<Rightarrow> (Panic ''index out of range [0] with length 0'', w2)
                                 | v0 # rest \<Rightarrow>
                                     (let tenantID = tenantValue.TenantID v0 in
                                      case refreshToken env (azureToken.RefreshToken token)
                                             tenantID w2 of
                                        ((tenantToken, Some err), w3) \<Rightarrow>
                                          (Returned (Some (Wrap err ''login failed'')), w3)
                                      | ((tenantToken, None), w3) \<Rightarrow>
                                          (let loginInfo =
                                                 \<lparr>TenantID = tenantID, Token = tenantToken\<rparr> in
                                           case writeLoginInfo env loginInfo w3 of
                                             (Some err, w4) \<Rightarrow>
                                               (Returned (Some (Wrap err ''login failed'')), w4)
                                           | (None, w4) \<Rightarrow>
                                               (Returned None,
                                                log_event (Println ''Login Succeeded'') w4)))))
                         else
                           (Returned (Some (Errorf (''login failed : '' @ bits) [])), w2)))))"

definition Login :: "env \<Rightarrow> world \<Rightarrow> error option outcome \<times> world" where
  "Login env w =
     (case startLoginServer env w of
        (Inl err, w1) \<Rightarrow> (Returned (Some err), w1)
      | (Inr serverPort, w1) \<Rightarrow>
          (let redirectURL = ''http://localhost:'' @ Itoa serverPort in
           case openAzureLoginPage env redirectURL w1 of
             (Exit err, w2) \<Rightarrow> (Exit err, w2)
           | (Panic msg, w2) \<Rightarrow> (Panic msg, w2)
           | (Returned u, w2) \<Rightarrow>
               (case select_r env of
                  ctx_Done \<Rightarrow> (Returned None, w2)
                | queryCh qsValues \<Rightarrow> Login_callback env redirectURL qsValues w2)))"

section \<open>What a run did\<close>

fun is_write :: "event \<Rightarrow> bool" where
  "is_write (WriteLoginInfo info) = True"
| "is_write e = False"

fun is_network :: "event \<Rightarrow> bool" where
  "is_network (QueryToken data tenantID) = True"
| "is_network (QueryAuthorizationAPI url h) = True"
| "is_network e = False"

definition writes :: "world \<Rightarrow> event list" where
  "writes w = filter is_write (trace w)"

definition network_calls :: "world \<Rightarrow> event list" where
  "network_calls w = filter is_network (trace w)"

fun is_spawn :: "event \<Rightarrow> bool" where
  "is_spawn (ExecStart name args) = True"
| "is_spawn e = False"

definition spawns :: "world \<Rightarrow> event list" where
  "spawns w = filter is_spawn (trace w)"

text \<open>The redirect URI \<open>Login\<close> builds from the listener's port (line 88).\<close>

definition redirectURL :: "int \<Rightarrow> string" where
  "redirectURL serverPort = ''http://localhost:'' @ Itoa serverPort"

text \<open>
  The refresh exchange \<open>GetValidToken\<close> makes for a stored credential, and the credential
  it then hands to the store: the same tenant, the token converted from the provider's
  answer at the clock after the exchange.
\<close>

definition refresh_call :: "TokenInfo \<Rightarrow> event" where
  "refresh_call c = QueryToken (refresh_data (RefreshToken (Token c))) (TenantID c)"

definition refreshed :: "env \<Rightarrow> world \<Rightarrow> TokenInfo \<Rightarrow> azureToken \<Rightarrow> TokenInfo" where
  "refreshed env w c az =
     \<lparr>TenantID = TenantID c,
      Token = toOAuthToken env az (log_event (refresh_call c) (log_event ReadToken w))\<rparr>"

text \<open>
  A run of \<open>Login\<close> that returned an error, made no store write and left the stored
  credential as it was.
\<close>

definition failed_untouched :: "env \<Rightarrow> world \<Rightarrow> bool" where
  "failed_untouched env w =
     ((case fst (Login env w) of Returned (Some err) \<Rightarrow> True | _ \<Rightarrow> False)
      \<and> writes (snd (Login env w)) = writes w
      \<and> store (snd (Login env w)) = store w)"

section \<open>Example runs\<close>

text \<open>
  A run in which every collaborator succeeds: Linux, the browser starts, the listener
  gets port 8080, the callback carries a code, both token exchanges answer with a
  one-hour token, discovery answers 200 with one tenant, the store accepts the write, and
  the clock shows 100 seconds. The other runs differ from it in one answer.
\<close>

definition example_azureToken :: azureToken where
  "example_azureToken =
     \<lparr>Type = ''Bearer'', Scope = scopes, ExpiresIn = 3600, ExtExpiresIn = 3600,
      azureToken.AccessToken = ''access1'', azureToken.RefreshToken = ''refresh1'', Foci = ''1''\<rparr>"

definition example_env :: env where
  "example_env =
     \<lparr>goos = ''linux'',
      exec_Start_r = (\<lambda>name args. None),
      startLoginServer_r = Inr 8080,
      randomString_r = ''state0'',
      select_r = queryCh [''code'' \<mapsto> [''code0'']],
      queryToken_r = (\<lambda>data tenantID. Inr example_azureToken),
      queryAuthorizationAPI_r = (\<lambda>url h. (''tenants'', 200, None)),
      json_Unmarshal_r = (\<lambda>bits. Inr \<lparr>Value = [\<lparr>tenantValue.TenantID = ''tenant0''\<rparr>]\<rparr>),
      writeLoginInfo_r = (\<lambda>info. None),
      time_Now_r = (\<lambda>tr. 100000000000)\<rparr>"

definition example_credential :: "int \<Rightarrow> TokenInfo" where
  "example_credential expiry =
     \<lparr>TenantID = ''tenant0'',
      Token = \<lparr>AccessToken = ''access0'', TokenType = ''Bearer'',
               RefreshToken = ''refresh0'', Expiry = expiry\<rparr>\<rparr>"

definition example_world :: "TokenInfo option \<Rightarrow> world" where
  "example_world s = \<lparr>trace = [], store = s\<rparr>"

text \<open>A store holding a credential that expired 10 seconds ago.\<close>

definition stored_world :: world where
  "stored_world = example_world (Some (example_credential 90000000000))"

definition example_url :: string where
  "example_url = authorizeFormat clientID (redirectURL 8080) ''state0'' scopes"

text \<open>The world once the listener runs and the browser was started.\<close>

definition listening_world :: world where
  "listening_world =
     log_event (ExecStart ''xdg-open'' [example_url]) (log_event StartLoginServer stored_world)"

definition overflow_env :: env where
  "overflow_env =
     example_env\<lparr>queryToken_r :=
       (\<lambda>data tenantID. Inr (example_azureToken\<lparr>ExpiresIn := 9223372037\<rparr>))\<rparr>"

definition refresh_failed_env :: env where
  "refresh_failed_env =
     example_env\<lparr>queryToken_r := (\<lambda>data tenantID. Inl (Foreign ''invalid_grant''))\<rparr>"

definition write_failed_env :: env where
  "write_failed_env = example_env\<lparr>writeLoginInfo_r := (\<lambda>info. Some (Foreign ''disk full''))\<rparr>"

definition error_env :: env where
  "error_env =
     example_env\<lparr>select_r := queryCh [''error'' \<mapsto> [''access_denied''], ''code'' \<mapsto> [''code0'']]\<rparr>"

definition no_code_env :: env where
  "no_code_env = example_env\<lparr>select_r := queryCh [''state'' \<mapsto> [''state0'']]\<rparr>"

definition cancelled_env :: env where
  "cancelled_env = example_env\<lparr>select_r := ctx_Done\<rparr>"

definition discovery_failed_env :: env where
  "discovery_failed_env =
     example_env\<lparr>queryAuthorizationAPI_r := (\<lambda>url h. ([], 0, Some (Foreign ''timeout'')))\<rparr>"

definition forbidden_env :: env where
  "forbidden_env = example_env\<lparr>queryAuthorizationAPI_r := (\<lambda>url h. (''forbidden'', 403, None))\<rparr>"

definition malformed_env :: env where
  "malformed_env =
     example_env\<lparr>json_Unmarshal_r := (\<lambda>bits. Inl (Foreign ''unexpected end of JSON input''))\<rparr>"

definition tenant_refresh_failed_env :: env where
  "tenant_refresh_failed_env =
     example_env\<lparr>queryToken_r :=
       (\<lambda>data tenantID. if tenantID = ''organizations'' then Inr example_azureToken
                          else Inl (Foreign ''invalid_grant''))\<rparr>"

definition no_tenants_env :: env where
  "no_tenants_env = example_env\<lparr>json_Unmarshal_r := (\<lambda>bits. Inr \<lparr>Value = []\<rparr>)\<rparr>"

definition browser_failed_env :: env where
  "browser_failed_env =
     example_env\<lparr>exec_Start_r := (\<lambda>name args. Some (Foreign ''executable file not found''))\<rparr>"

section \<open>Frame lemmas: what each step leaves alone\<close>

lemma store_log_event: "store (log_event e w) = store w"
  by (simp add: log_event_def)

lemma writes_log_event: "writes (log_event e w) = writes w @ (if is_write e then [e] else [])"
  by (simp add: writes_def log_event_def)

lemma network_calls_log_event:
  "network_calls (log_event e w) = network_calls w @ (if is_network e then [e] else [])"
  by (simp add: network_calls_def log_event_def)

lemma spawns_log_event: "spawns (log_event e w) = spawns w @ (if is_spawn e then [e] else [])"
  by (simp add: spawns_def log_event_def)

lemma writes_store_update: "writes (w\<lparr>store := s\<rparr>) = writes w"
  by (simp add: writes_def)

lemma network_calls_store_update: "network_calls (w\<lparr>store := s\<rparr>) = network_calls w"
  by (simp add: network_calls_def)

lemma openbrowser_frame:
  "writes (snd (openbrowser env url w)) = writes w
   \<and> network_calls (snd (openbrowser env url w)) = network_calls w
   \<and> store (snd (openbrowser env url w)) = store w"
  by (simp add: openbrowser_def exec_Start_def writes_log_event network_calls_log_event
      store_log_event split: option.splits)

lemma openAzureLoginPage_frame:
  assumes "openAzureLoginPage env r w = (x, w2)"
  shows "writes w2 = writes w" and "network_calls w2 = network_calls w" and "store w2 = store w"
proof -
  have "w2 = snd (openbrowser env (authorizeFormat clientID r (randomString_r env) scopes) w)"
    using assms by (simp add: openAzureLoginPage_def)
  then show "writes w2 = writes w" and "network_calls w2 = network_calls w"
    and "store w2 = store w"
    by (simp_all add: openbrowser_frame)
qed

lemma openbrowser_no_panic: "fst (openbrowser env url w) \<noteq> Panic m"
  by (simp add: openbrowser_def exec_Start_def split: option.splits)

section \<open>The duration of a token\<close>

lemma sint_time_Second: "sint time_Second = 1000000000"
  by (simp add: time_Second_def)

lemma Duration_no_overflow:
  fixes n :: "64 word"
  assumes "- (2 ^ 63) \<le> sint n * 1000000000" and "sint n * 1000000000 < 2 ^ 63"
  shows "sint (n * time_Second) = sint n * 1000000000"
proof -
  have "sint (n * time_Second) = signed_take_bit (LENGTH(64) - 1) (sint n * sint time_Second)"
    by (rule sint_word_ariths)
  also have "\<dots> = signed_take_bit 63 (sint n * 1000000000)"
    by (simp add: sint_time_Second)
  also have "\<dots> = sint n * 1000000000"
    using assms by (intro signed_take_bit_int_eq_self) simp_all
  finally show ?thesis .
qed

section \<open>The steps of Login\<close>

lemma Login_listening:
  assumes "startLoginServer_r env = Inr port"
    and "openAzureLoginPage env (redirectURL port) (log_event StartLoginServer w) = (Returned (), w2)"
  shows "Login env w =
     (case select_r env of
        ctx_Done \<Rightarrow> (Returned None, w2)
      | queryCh qsValues \<Rightarrow> Login_callback env (redirectURL port) qsValues w2)"
  using assms unfolding Login_def redirectURL_def
  by (simp add: startLoginServer_def split: select_case.splits)

lemma Login_not_listening:
  assumes "startLoginServer_r env = Inl err"
  shows "Login env w = (Returned (Some err), log_event StartLoginServer w)"
  using assms by (simp add: Login_def startLoginServer_def)

lemma Login_browser_failed:
  assumes "startLoginServer_r env = Inr port"
    and "fst (openAzureLoginPage env (redirectURL port) (log_event StartLoginServer w)) = Exit err"
  shows "Login env w =
    (Exit err, snd (openAzureLoginPage env (redirectURL port) (log_event StartLoginServer w)))"
  using assms unfolding Login_def redirectURL_def
  by (cases "openAzureLoginPage env (''http://localhost:'' @ Itoa port) (log_event StartLoginServer w)")
     (simp add: startLoginServer_def)

lemma example_listening:
  assumes "goos env = ''linux''" and "exec_Start_r env = (\<lambda>name args. None)"
    and "randomString_r env = ''state0''"
  shows "openAzureLoginPage env (redirectURL 8080) (log_event StartLoginServer stored_world) =
    (Returned (), listening_world)"
  using assms
  by (simp add: openAzureLoginPage_def openbrowser_def exec_Start_def listening_world_def
      example_url_def)

section \<open>The refresh path of GetValidToken\<close>

lemma GetValidToken_refresh:
  assumes "store w = Some c"
    and "\<not> Valid (Token c) (time_Now env (log_event ReadToken w))"
  shows "GetValidToken env w =
     (case queryToken_r env (refresh_data (RefreshToken (Token c))) (TenantID c) of
        Inl err \<Rightarrow>
          ((zero_Token,
            Some (Wrap err ''access token request failed. Maybe you need to login to azure again.'')),
           log_event (refresh_call c) (log_event ReadToken w))
      | Inr az \<Rightarrow>
          (case writeLoginInfo_r env (refreshed env w c az) of
             Some err \<Rightarrow>
               ((zero_Token, Some err),
                log_event (WriteLoginInfo (refreshed env w c az))
                  (log_event (refresh_call c) (log_event ReadToken w)))
           | None \<Rightarrow>
               ((Token (refreshed env w c az), None),
                (log_event (WriteLoginInfo (refreshed env w c az))
                  (log_event (refresh_call c) (log_event ReadToken w)))
                \<lparr>store := Some (refreshed env w c az)\<rparr>)))"
  using assms
  by (simp add: GetValidToken_def readToken_def refreshToken_def queryToken_def
      writeLoginInfo_def refresh_call_def refreshed_def Let_def
      split: sum.splits option.splits)

section \<open>GetValidToken\<close>

text \<open>
  C2, as amended. \<open>GetValidToken\<close> asks \<open>token.Valid()\<close>, and oauth2 takes
  \<open>expiryDelta\<close> (10 seconds) off the expiry before comparing it with the clock. For
  every stored credential whose access token is not empty and whose expiry is the zero
  instant (never expires) or at least 10 seconds after the clock at the check,
  \<open>GetValidToken\<close> returns that token unchanged with no error; the run reads the store
  and does nothing else: no network call, no store write.
\<close>

theorem GetValidToken_valid_unchanged:
  assumes "store w = Some c"
    and "AccessToken (Token c) \<noteq> []"
    and "Expiry (Token c) = 0
         \<or> time_Now env (log_event ReadToken w) + expiryDelta \<le> Expiry (Token c)"
  shows "GetValidToken env w = ((Token c, None), log_event ReadToken w)
         \<and> network_calls (snd (GetValidToken env w)) = network_calls w
         \<and> writes (snd (GetValidToken env w)) = writes w
         \<and> store (snd (GetValidToken env w)) = store w"
proof -
  from assms(2,3) have "Valid (Token c) (time_Now env (log_event ReadToken w))"
    by (auto simp add: Valid_def expired_def)
  with assms(1) show ?thesis
    by (simp add: GetValidToken_def readToken_def network_calls_log_event writes_log_event
        store_log_event)
qed

text \<open>
  At the clock 100 s, a stored token that expires at 110 s is returned as it is, and the
  only event of the run is the store read.
\<close>

theorem GetValidToken_valid_unchanged_witness:
  "GetValidToken example_env (example_world (Some (example_credential 110000000000))) =
     ((Token (example_credential 110000000000), None),
      log_event ReadToken (example_world (Some (example_credential 110000000000))))
   \<and> network_calls (snd (GetValidToken example_env
         (example_world (Some (example_credential 110000000000))))) = []"
proof -
  have stored: "store (example_world (Some (example_credential 110000000000))) =
      Some (example_credential 110000000000)"
    by (simp add: example_world_def)
  have access: "AccessToken (Token (example_credential 110000000000)) \<noteq> []"
    by (simp add: example_credential_def)
  have ahead: "Expiry (Token (example_credential 110000000000)) = 0
      \<or> time_Now example_env
            (log_event ReadToken (example_world (Some (example_credential 110000000000))))
          + expiryDelta \<le> Expiry (Token (example_credential 110000000000))"
    by (simp add: example_credential_def example_env_def time_Now_def expiryDelta_def)
  have calls: "network_calls (example_world (Some (example_credential 110000000000))) = []"
    by (simp add: example_world_def network_calls_def)
  from GetValidToken_valid_unchanged [OF stored access ahead] calls
  show ?thesis by (auto simp add: network_calls_log_event)
qed

text \<open>
  C2 as stated fails: at the clock 100 s, a stored token that expires at 105 s, strictly
  in the future, is not returned. \<open>GetValidToken\<close> makes the refresh exchange and
  returns the refreshed token instead.
\<close>

theorem GetValidToken_grace_period_counterexample:
  "time_Now example_env (log_event ReadToken (example_world (Some (example_credential 105000000000))))
     < Expiry (Token (example_credential 105000000000))
   \<and> network_calls (snd (GetValidToken example_env
         (example_world (Some (example_credential 105000000000))))) =
       [QueryToken (refresh_data ''refresh0'') ''tenant0'']
   \<and> fst (fst (GetValidToken example_env
         (example_world (Some (example_credential 105000000000))))) \<noteq>
       Token (example_credential 105000000000)"
  by (simp add: example_world_def example_credential_def example_env_def Valid_def expired_def
      expiryDelta_def time_Now_def log_event_def network_calls_def GetValidToken_def
      readToken_def refreshToken_def queryToken_def writeLoginInfo_def Let_def
      toOAuthToken_def example_azureToken_def)

text \<open>
  C3. For every stored credential whose token is expired, \<open>GetValidToken\<close> makes the
  refresh exchange exactly once: the network calls of the run are that one call, with the
  stored refresh token and the stored tenant. When the exchange fails, the result is the
  provider's error wrapped with the hint that a new login may be needed, no write is made
  and the store is as before. When it succeeds, the one write of the run hands over the
  same tenant with the new token, and when the store accepts it, the token returned is
  the one the store now holds.
\<close>

theorem GetValidToken_expired_refreshes_once:
  assumes "store w = Some c"
    and "expired (Token c) (time_Now env (log_event ReadToken w))"
  shows "network_calls (snd (GetValidToken env w)) = network_calls w @ [refresh_call c]
    \<and> (\<forall>err. queryToken_r env (refresh_data (RefreshToken (Token c))) (TenantID c) = Inl err \<longrightarrow>
          fst (GetValidToken env w) =
            (zero_Token,
             Some (Wrap err ''access token request failed. Maybe you need to login to azure again.''))
          \<and> writes (snd (GetValidToken env w)) = writes w
          \<and> store (snd (GetValidToken env w)) = store w)
    \<and> (\<forall>az. queryToken_r env (refresh_data (RefreshToken (Token c))) (TenantID c) = Inr az \<longrightarrow>
          writes (snd (GetValidToken env w)) = writes w @ [WriteLoginInfo (refreshed env w c az)]
          \<and> TenantID (refreshed env w c az) = TenantID c
          \<and> (writeLoginInfo_r env (refreshed env w c az) = None \<longrightarrow>
               fst (GetValidToken env w) = (Token (refreshed env w c az), None)
               \<and> store (snd (GetValidToken env w)) = Some (refreshed env w c az)))"
proof -
  from assms(2) have nv: "\<not> Valid (Token c) (time_Now env (log_event ReadToken w))"
    by (simp add: Valid_def)
  show ?thesis
    by (simp add: GetValidToken_refresh [OF assms(1) nv] network_calls_log_event
        writes_log_event store_log_event writes_store_update network_calls_store_update
        refresh_call_def refreshed_def split: sum.splits option.splits)
qed

text \<open>
  A credential that expired at 90 s, read at 100 s: when the provider rejects the refresh,
  the wrapped error comes back and the store still holds the old credential; when it
  answers with a one-hour token, the one network call is the refresh, and the token
  returned (expiring at 3700 s) is the one in the store.
\<close>

theorem GetValidToken_expired_refreshes_once_witness:
  "fst (GetValidToken refresh_failed_env stored_world) =
     (zero_Token,
      Some (Wrap (Foreign ''invalid_grant'')
        ''access token request failed. Maybe you need to login to azure again.''))
   \<and> store (snd (GetValidToken refresh_failed_env stored_world)) =
      Some (example_credential 90000000000)
   \<and> network_calls (snd (GetValidToken example_env stored_world)) =
      [refresh_call (example_credential 90000000000)]
   \<and> fst (GetValidToken example_env stored_world) =
      (\<lparr>AccessToken = ''access1'', TokenType = ''Bearer'', RefreshToken = ''refresh1'',
        Expiry = 3700000000000\<rparr>, None)
   \<and> store (snd (GetValidToken example_env stored_world)) =
      Some \<lparr>TenantID = ''tenant0'',
            Token = \<lparr>AccessToken = ''access1'', TokenType = ''Bearer'',
                     RefreshToken = ''refresh1'', Expiry = 3700000000000\<rparr>\<rparr>"
proof -
  have stored: "store stored_world = Some (example_credential 90000000000)"
    by (simp add: stored_world_def example_world_def)
  have calls: "network_calls stored_world = []"
    by (simp add: stored_world_def example_world_def network_calls_def)
  have exp1: "expired (Token (example_credential 90000000000))
      (time_Now refresh_failed_env (log_event ReadToken stored_world))"
    by (simp add: expired_def example_credential_def expiryDelta_def time_Now_def
        refresh_failed_env_def example_env_def)
  have exp2: "expired (Token (example_credential 90000000000))
      (time_Now example_env (log_event ReadToken stored_world))"
    by (simp add: expired_def example_credential_def expiryDelta_def time_Now_def
        example_env_def)
  have rejected: "queryToken_r refresh_failed_env
      (refresh_data (RefreshToken (Token (example_credential 90000000000))))
      (TenantID (example_credential 90000000000)) = Inl (Foreign ''invalid_grant'')"
    by (simp add: refresh_failed_env_def)
  have answered: "queryToken_r example_env
      (refresh_data (RefreshToken (Token (example_credential 90000000000))))
      (TenantID (example_credential 90000000000)) = Inr example_azureToken"
    by (simp add: example_env_def)
  have accepted: "writeLoginInfo_r example_env info = None" for info
    by (simp add: example_env_def)
  have new: "refreshed example_env stored_world (example_credential 90000000000)
      example_azureToken =
      \<lparr>TenantID = ''tenant0'',
       Token = \<lparr>AccessToken = ''access1'', TokenType = ''Bearer'',
                RefreshToken = ''refresh1'', Expiry = 3700000000000\<rparr>\<rparr>"
    by (simp add: refreshed_def toOAuthToken_def example_credential_def example_azureToken_def
        example_env_def time_Now_def time_Second_def)
  from GetValidToken_expired_refreshes_once [OF stored exp1] rejected stored
    GetValidToken_expired_refreshes_once [OF stored exp2] answered accepted new calls
  show ?thesis by auto
qed

text \<open>
  C10. When the stored token is not valid, the refresh exchange succeeds and the store
  then refuses the write, \<open>GetValidToken\<close> returns the zero token together with the
  store's error: the refreshed token does not reach the caller. The store keeps the old
  credential.
\<close>

theorem GetValidToken_write_failure:
  assumes "store w = Some c"
    and "\<not> Valid (Token c) (time_Now env (log_event ReadToken w))"
    and "queryToken_r env (refresh_data (RefreshToken (Token c))) (TenantID c) = Inr az"
    and "writeLoginInfo_r env (refreshed env w c az) = Some err"
  shows "fst (GetValidToken env w) = (zero_Token, Some err)
    \<and> store (snd (GetValidToken env w)) = store w"
  using assms(3,4)
  by (simp add: GetValidToken_refresh [OF assms(1,2)] store_log_event)

theorem GetValidToken_write_failure_witness:
  "fst (GetValidToken write_failed_env stored_world) = (zero_Token, Some (Foreign ''disk full''))
   \<and> store (snd (GetValidToken write_failed_env stored_world)) =
      Some (example_credential 90000000000)"
proof -
  have stored: "store stored_world = Some (example_credential 90000000000)"
    by (simp add: stored_world_def example_world_def)
  have invalid: "\<not> Valid (Token (example_credential 90000000000))
      (time_Now write_failed_env (log_event ReadToken stored_world))"
    by (simp add: Valid_def expired_def example_credential_def expiryDelta_def time_Now_def
        write_failed_env_def example_env_def)
  have answered: "queryToken_r write_failed_env
      (refresh_data (RefreshToken (Token (example_credential 90000000000))))
      (TenantID (example_credential 90000000000)) = Inr example_azureToken"
    by (simp add: write_failed_env_def example_env_def)
  have refused: "writeLoginInfo_r write_failed_env
      (refreshed write_failed_env stored_world (example_credential 90000000000)
        example_azureToken) = Some (Foreign ''disk full'')"
    by (simp add: write_failed_env_def)
  from GetValidToken_write_failure [OF stored invalid answered refused] stored
  show ?thesis by auto
qed

section \<open>refreshToken and toOAuthToken\<close>

text \<open>
  C7, as amended. Every call of \<open>refreshToken\<close> (the only way \<open>Login\<close> and
  \<open>GetValidToken\<close> reach the refresh exchange) makes exactly one \<open>queryToken\<close> call, for
  the tenant it was given, with \<open>grant_type=refresh_token\<close>, the fixed scope string and
  the given refresh token. The provider's answer becomes a token with the answer's access
  token, type and refresh token, whose expiry is the clock after the exchange plus
  \<open>ExpiresIn * time.Second\<close> computed in 64 bits. That is the clock plus \<open>ExpiresIn\<close>
  seconds whenever \<open>ExpiresIn\<close> seconds, in nanoseconds, fit a signed 64-bit
  \<open>time.Duration\<close>.
\<close>

theorem refreshToken_exchange:
  "snd (refreshToken env rt tenantID w) = log_event (QueryToken (refresh_data rt) tenantID) w
   \<and> refresh_data rt ''grant_type'' = Some [''refresh_token'']
   \<and> refresh_data rt ''scope'' = Some [scopes]
   \<and> refresh_data rt ''refresh_token'' = Some [rt]
   \<and> (\<forall>token. queryToken_r env (refresh_data rt) tenantID = Inr token \<longrightarrow>
        fst (refreshToken env rt tenantID w) =
          (\<lparr>AccessToken = azureToken.AccessToken token, TokenType = Type token,
            RefreshToken = azureToken.RefreshToken token,
            Expiry = time_Now env (log_event (QueryToken (refresh_data rt) tenantID) w)
                     + sint (ExpiresIn token * time_Second)\<rparr>, None)
        \<and> (- (2 ^ 63) \<le> sint (ExpiresIn token) * 1000000000
             \<and> sint (ExpiresIn token) * 1000000000 < 2 ^ 63 \<longrightarrow>
            Expiry (fst (fst (refreshToken env rt tenantID w))) =
              time_Now env (log_event (QueryToken (refresh_data rt) tenantID) w)
              + sint (ExpiresIn token) * 1000000000))"
  by (auto simp add: refreshToken_def queryToken_def refresh_data_def toOAuthToken_def
      Duration_no_overflow split: sum.splits)

text \<open>A one-hour token granted at 100 s expires at 3700 s.\<close>

theorem refreshToken_exchange_witness:
  "fst (refreshToken example_env ''refresh0'' ''tenant0'' (example_world None)) =
     (\<lparr>AccessToken = ''access1'', TokenType = ''Bearer'', RefreshToken = ''refresh1'',
       Expiry = 100000000000 + 3600 * 1000000000\<rparr>, None)
   \<and> snd (refreshToken example_env ''refresh0'' ''tenant0'' (example_world None)) =
       log_event (QueryToken (refresh_data ''refresh0'') ''tenant0'') (example_world None)"
  using refreshToken_exchange [of example_env "''refresh0''" "''tenant0''" "example_world None"]
  by (simp add: example_env_def example_azureToken_def time_Now_def time_Second_def)

text \<open>
  C7 as stated fails when the provider's \<open>expires_in\<close> is 9223372037 seconds: the
  product with \<open>time.Second\<close> exceeds the largest 64-bit integer and wraps around, and the
  expiry of the credential lies some 292 years before the clock, not after it.
\<close>

theorem refreshToken_expiry_counterexample:
  "queryToken_r overflow_env (refresh_data ''refresh0'') ''tenant0'' =
     Inr (example_azureToken\<lparr>ExpiresIn := 9223372037\<rparr>)
   \<and> sint (ExpiresIn (example_azureToken\<lparr>ExpiresIn := 9223372037\<rparr>)) = 9223372037
   \<and> time_Now overflow_env
        (snd (refreshToken overflow_env ''refresh0'' ''tenant0'' (example_world None))) =
      100000000000
   \<and> Expiry (fst (fst (refreshToken overflow_env ''refresh0'' ''tenant0'' (example_world None)))) =
      100000000000 - 9223372036709551616
   \<and> Expiry (fst (fst (refreshToken overflow_env ''refresh0'' ''tenant0'' (example_world None)))) \<noteq>
      100000000000 + 9223372037 * 1000000000"
  by (simp add: overflow_env_def example_env_def example_azureToken_def time_Now_def
      time_Second_def refreshToken_def queryToken_def toOAuthToken_def)

section \<open>Login\<close>

text \<open>
  C6. Once the listener runs, the browser was started and the callback query was
  delivered: when the query has an \<open>error\<close> key, \<open>Login\<close> returns the error
  \<open>fmt.Errorf("login failed : %s", errorMsg)\<close> made from the value of that key, and
  nothing else happens; when the query has no \<open>code\<close> key, \<open>Login\<close> fails as well, with
  that same error if an \<open>error\<close> key is present and with \<open>ErrLoginFailed\<close> otherwise.
\<close>

theorem Login_callback_error_or_missing_code:
  assumes "startLoginServer_r env = Inr port"
    and "openAzureLoginPage env (redirectURL port) (log_event StartLoginServer w) = (Returned (), w2)"
    and "select_r env = queryCh qsValues"
  shows "(\<forall>errorMsg. qsValues ''error'' = Some errorMsg \<longrightarrow>
            Login env w = (Returned (Some (Errorf ''login failed : %s'' [errorMsg])), w2))
    \<and> (qsValues ''code'' = None \<longrightarrow>
          Login env w =
            (Returned (Some (case qsValues ''error'' of
                               Some errorMsg \<Rightarrow> Errorf ''login failed : %s'' [errorMsg]
                             | None \<Rightarrow> ErrLoginFailed)), w2))"
  using assms(3)
  by (simp add: Login_listening [OF assms(1,2)] Login_callback_def split: option.splits)

text \<open>
  A callback with \<open>error=access_denied\<close> gives the error made from that value; a callback
  with only a \<open>state\<close> key gives \<open>ErrLoginFailed\<close>.
\<close>

theorem Login_callback_error_or_missing_code_witness:
  "Login error_env stored_world =
     (Returned (Some (Errorf ''login failed : %s'' [[''access_denied'']])), listening_world)
   \<and> Login no_code_env stored_world = (Returned (Some ErrLoginFailed), listening_world)"
proof -
  have port1: "startLoginServer_r error_env = Inr 8080"
    by (simp add: error_env_def example_env_def)
  have opened1: "openAzureLoginPage error_env (redirectURL 8080)
      (log_event StartLoginServer stored_world) = (Returned (), listening_world)"
    by (rule example_listening) (simp_all add: error_env_def example_env_def)
  have delivered1: "select_r error_env =
      queryCh [''error'' \<mapsto> [''access_denied''], ''code'' \<mapsto> [''code0'']]"
    by (simp add: error_env_def)
  have port2: "startLoginServer_r no_code_env = Inr 8080"
    by (simp add: no_code_env_def example_env_def)
  have opened2: "openAzureLoginPage no_code_env (redirectURL 8080)
      (log_event StartLoginServer stored_world) = (Returned (), listening_world)"
    by (rule example_listening) (simp_all add: no_code_env_def example_env_def)
  have delivered2: "select_r no_code_env = queryCh [''state'' \<mapsto> [''state0'']]"
    by (simp add: no_code_env_def)
  from Login_callback_error_or_missing_code [OF port1 opened1 delivered1]
    Login_callback_error_or_missing_code [OF port2 opened2 delivered2]
  show ?thesis by simp
qed

text \<open>
  C9. When the delivered query has both an \<open>error\<close> key and a \<open>code\<close> key, \<open>Login\<close>
  returns the error made from the \<open>error\<close> key, and the run makes no network call: the
  code is not exchanged.
\<close>

theorem Login_error_key_precedes_code:
  assumes "startLoginServer_r env = Inr port"
    and "openAzureLoginPage env (redirectURL port) (log_event StartLoginServer w) = (Returned (), w2)"
    and "select_r env = queryCh qsValues"
    and "qsValues ''error'' = Some errorMsg"
    and "qsValues ''code'' = Some code"
  shows "Login env w = (Returned (Some (Errorf ''login failed : %s'' [errorMsg])), w2)
    \<and> network_calls (snd (Login env w)) = network_calls w"
  using assms(3,4) openAzureLoginPage_frame [OF assms(2)]
  by (simp add: Login_listening [OF assms(1,2)] Login_callback_def network_calls_log_event)

theorem Login_error_key_precedes_code_witness:
  "Login error_env stored_world =
     (Returned (Some (Errorf ''login failed : %s'' [[''access_denied'']])), listening_world)
   \<and> network_calls (snd (Login error_env stored_world)) = []"
proof -
  have port: "startLoginServer_r error_env = Inr 8080"
    by (simp add: error_env_def example_env_def)
  have opened: "openAzureLoginPage error_env (redirectURL 8080)
      (log_event StartLoginServer stored_world) = (Returned (), listening_world)"
    by (rule example_listening) (simp_all add: error_env_def example_env_def)
  have delivered: "select_r error_env =
      queryCh [''error'' \<mapsto> [''access_denied''], ''code'' \<mapsto> [''code0'']]"
    by (simp add: error_env_def)
  have calls: "network_calls stored_world = []"
    by (simp add: stored_world_def example_world_def network_calls_def)
  from Login_error_key_precedes_code
    [OF port opened delivered, of "[''access_denied'']" "[''code0'']"] calls
  show ?thesis by auto
qed

text \<open>
  C5. When the \<open>select\<close> takes the cancellation case, which is the case when the signal
  fires before any callback parameters are delivered, the run of \<open>Login\<close> makes no store
  write and no network call and leaves the store as it was; and when the listener had
  started and the browser had been opened, so that \<open>Login\<close> reached the \<open>select\<close>, it
  returns success with no error.
\<close>

theorem Login_cancelled:
  assumes "select_r env = ctx_Done"
  shows "writes (snd (Login env w)) = writes w
    \<and> store (snd (Login env w)) = store w
    \<and> network_calls (snd (Login env w)) = network_calls w
    \<and> (\<forall>port. startLoginServer_r env = Inr port
          \<and> fst (openAzureLoginPage env (redirectURL port) (log_event StartLoginServer w)) =
              Returned ()
        \<longrightarrow> fst (Login env w) = Returned None)"
proof (cases "startLoginServer_r env")
  case (Inl err)
  then show ?thesis
    by (simp add: Login_not_listening writes_log_event store_log_event network_calls_log_event)
next
  case (Inr port)
  obtain r w2 where
    o: "openAzureLoginPage env (redirectURL port) (log_event StartLoginServer w) = (r, w2)"
    by (cases "openAzureLoginPage env (redirectURL port) (log_event StartLoginServer w)")
  have frame: "writes w2 = writes w" "store w2 = store w" "network_calls w2 = network_calls w"
    using openAzureLoginPage_frame [OF o]
    by (simp_all add: writes_log_event store_log_event network_calls_log_event)
  show ?thesis
  proof (cases r)
    case (Returned u)
    with o have "Login env w = (Returned None, w2)"
      using Login_listening [OF Inr, of w w2] assms by simp
    with frame show ?thesis by simp
  next
    case (Panic m)
    with o have "fst (openbrowser env
        (authorizeFormat clientID (redirectURL port) (randomString_r env) scopes)
        (log_event StartLoginServer w)) = Panic m"
      by (simp add: openAzureLoginPage_def)
    with openbrowser_no_panic show ?thesis by blast
  next
    case (Exit err)
    with o have "Login env w = (Exit err, w2)"
      using Login_browser_failed [OF Inr, of w err] by simp
    with frame Inr o Exit show ?thesis by simp
  qed
qed

theorem Login_cancelled_witness:
  "fst (Login cancelled_env stored_world) = Returned None
   \<and> writes (snd (Login cancelled_env stored_world)) = []
   \<and> store (snd (Login cancelled_env stored_world)) = Some (example_credential 90000000000)"
proof -
  have cancelled: "select_r cancelled_env = ctx_Done"
    by (simp add: cancelled_env_def)
  have port: "startLoginServer_r cancelled_env = Inr 8080"
    by (simp add: cancelled_env_def example_env_def)
  have opened: "openAzureLoginPage cancelled_env (redirectURL 8080)
      (log_event StartLoginServer stored_world) = (Returned (), listening_world)"
    by (rule example_listening) (simp_all add: cancelled_env_def example_env_def)
  have before: "writes stored_world = []"
    "store stored_world = Some (example_credential 90000000000)"
    by (simp_all add: stored_world_def example_world_def writes_def)
  from Login_cancelled [OF cancelled, of stored_world] port opened before
  show ?thesis by simp
qed

text \<open>
  C4. Once the listener runs, the browser was started and the callback query was
  delivered, each of these failures makes \<open>Login\<close> return an error without any store
  write, the stored credential staying as it was: the query has an \<open>error\<close> key; the
  query has no \<open>code\<close> key; the exchange of the code fails; tenant discovery fails, answers
  with a status other than 200, or answers 200 with a body that does not decode; the
  tenant-scoped refresh fails. And a run of \<open>Login\<close> that makes a store write is one in
  which the query had a code and no error, the code exchange, the discovery (status 200,
  a body that decodes, a first tenant) and the tenant-scoped refresh all succeeded.
\<close>

theorem Login_failure_no_write:
  assumes "startLoginServer_r env = Inr port"
    and "openAzureLoginPage env (redirectURL port) (log_event StartLoginServer w) = (Returned (), w2)"
    and "select_r env = queryCh qs"
  shows "(qs ''error'' = Some errorMsg \<longrightarrow> failed_untouched env w)
    \<and> (qs ''code'' = None \<longrightarrow> failed_untouched env w)
    \<and> (qs ''error'' = None \<and> qs ''code'' = Some code
        \<and> queryToken_r env (code_data code (redirectURL port)) ''organizations'' = Inl err1
        \<longrightarrow> failed_untouched env w)
    \<and> (qs ''error'' = None \<and> qs ''code'' = Some code
        \<and> queryToken_r env (code_data code (redirectURL port)) ''organizations'' = Inr token
        \<and> queryAuthorizationAPI_r env authorizationURL
             (''Bearer '' @ azureToken.AccessToken token) = (bits, statusCode, Some err2)
        \<longrightarrow> failed_untouched env w)
    \<and> (qs ''error'' = None \<and> qs ''code'' = Some code
        \<and> queryToken_r env (code_data code (redirectURL port)) ''organizations'' = Inr token
        \<and> queryAuthorizationAPI_r env authorizationURL
             (''Bearer '' @ azureToken.AccessToken token) = (bits, statusCode, None)
        \<and> statusCode \<noteq> 200
        \<longrightarrow> failed_untouched env w)
    \<and> (qs ''error'' = None \<and> qs ''code'' = Some code
        \<and> queryToken_r env (code_data code (redirectURL port)) ''organizations'' = Inr token
        \<and> queryAuthorizationAPI_r env authorizationURL
             (''Bearer '' @ azureToken.AccessToken token) = (bits, 200, None)
        \<and> json_Unmarshal_r env bits = Inl err3
        \<longrightarrow> failed_untouched env w)
    \<and> (qs ''error'' = None \<and> qs ''code'' = Some code
        \<and> queryToken_r env (code_data code (redirectURL port)) ''organizations'' = Inr token
        \<and> queryAuthorizationAPI_r env authorizationURL
             (''Bearer '' @ azureToken.AccessToken token) = (bits, 200, None)
        \<and> json_Unmarshal_r env bits = Inr tenants
        \<and> Value tenants = v0 # rest
        \<and> queryToken_r env (refresh_data (azureToken.RefreshToken token))
             (tenantValue.TenantID v0) = Inl err4
        \<longrightarrow> failed_untouched env w)
    \<and> (writes (snd (Login env w)) \<noteq> writes w \<longrightarrow>
         (\<exists>code token bits tenants v0 rest tenantToken.
            qs ''error'' = None \<and> qs ''code'' = Some code
            \<and> queryToken_r env (code_data code (redirectURL port)) ''organizations'' = Inr token
            \<and> queryAuthorizationAPI_r env authorizationURL
                 (''Bearer '' @ azureToken.AccessToken token) = (bits, 200, None)
            \<and> json_Unmarshal_r env bits = Inr tenants
            \<and> Value tenants = v0 # rest
            \<and> queryToken_r env (refresh_data (azureToken.RefreshToken token))
                 (tenantValue.TenantID v0) = Inr tenantToken))"
proof -
  have L: "Login env w = Login_callback env (redirectURL port) qs w2"
    using Login_listening [OF assms(1,2)] assms(3) by simp
  have frame: "writes w2 = writes w" "store w2 = store w"
    using openAzureLoginPage_frame [OF assms(2)]
    by (simp_all add: writes_log_event store_log_event)
  show ?thesis
    unfolding failed_untouched_def L
    by (auto simp add: Login_callback_def queryToken_def queryAuthorizationAPI_def
        refreshToken_def writeLoginInfo_def frame writes_log_event store_log_event
        writes_store_update Let_def
        split: option.splits sum.splits list.splits prod.splits if_splits)
qed

text \<open>One run for each of the seven failures, the store holding a credential before.\<close>

theorem Login_failure_no_write_witness:
  "failed_untouched error_env stored_world
   \<and> failed_untouched no_code_env stored_world
   \<and> failed_untouched refresh_failed_env stored_world
   \<and> failed_untouched discovery_failed_env stored_world
   \<and> failed_untouched forbidden_env stored_world
   \<and> failed_untouched malformed_env stored_world
   \<and> failed_untouched tenant_refresh_failed_env stored_world"
proof -
  have 1: "failed_untouched error_env stored_world"
    using Login_failure_no_write
      [where env = error_env and port = 8080 and w = stored_world and ?w2.0 = listening_world
         and qs = "[''error'' \<mapsto> [''access_denied''], ''code'' \<mapsto> [''code0'']]"
         and errorMsg = "[''access_denied'']"]
      example_listening [of error_env]
    by (simp add: error_env_def example_env_def)
  have 2: "failed_untouched no_code_env stored_world"
    using Login_failure_no_write
      [where env = no_code_env and port = 8080 and w = stored_world and ?w2.0 = listening_world
         and qs = "[''state'' \<mapsto> [''state0'']]"]
      example_listening [of no_code_env]
    by (simp add: no_code_env_def example_env_def)
  have 3: "failed_untouched refresh_failed_env stored_world"
    using Login_failure_no_write
      [where env = refresh_failed_env and port = 8080 and w = stored_world
         and ?w2.0 = listening_world and qs = "[''code'' \<mapsto> [''code0'']]"
         and code = "[''code0'']" and ?err1.0 = "Foreign ''invalid_grant''"]
      example_listening [of refresh_failed_env]
    by (simp add: refresh_failed_env_def example_env_def)
  have 4: "failed_untouched discovery_failed_env stored_world"
    using Login_failure_no_write
      [where env = discovery_failed_env and port = 8080 and w = stored_world
         and ?w2.0 = listening_world and qs = "[''code'' \<mapsto> [''code0'']]"
         and code = "[''code0'']" and token = example_azureToken and bits = "[]"
         and statusCode = 0 and ?err2.0 = "Foreign ''timeout''"]
      example_listening [of discovery_failed_env]
    by (simp add: discovery_failed_env_def example_env_def)
  have 5: "failed_untouched forbidden_env stored_world"
    using Login_failure_no_write
      [where env = forbidden_env and port = 8080 and w = stored_world
         and ?w2.0 = listening_world and qs = "[''code'' \<mapsto> [''code0'']]"
         and code = "[''code0'']" and token = example_azureToken and bits = "''forbidden''"
         and statusCode = 403]
      example_listening [of forbidden_env]
    by (simp add: forbidden_env_def example_env_def)
  have 6: "failed_untouched malformed_env stored_world"
    using Login_failure_no_write
      [where env = malformed_env and port = 8080 and w = stored_world
         and ?w2.0 = listening_world and qs = "[''code'' \<mapsto> [''code0'']]"
         and code = "[''code0'']" and token = example_azureToken and bits = "''tenants''"
         and ?err3.0 = "Foreign ''unexpected end of JSON input''"]
      example_listening [of malformed_env]
    by (simp add: malformed_env_def example_env_def)
  have 7: "failed_untouched tenant_refresh_failed_env stored_world"
    using Login_failure_no_write
      [where env = tenant_refresh_failed_env and port = 8080 and w = stored_world
         and ?w2.0 = listening_world and qs = "[''code'' \<mapsto> [''code0'']]"
         and code = "[''code0'']" and token = example_azureToken and bits = "''tenants''"
         and tenants = "\<lparr>Value = [\<lparr>tenantValue.TenantID = ''tenant0''\<rparr>]\<rparr>"
         and ?v0.0 = "\<lparr>tenantValue.TenantID = ''tenant0''\<rparr>" and rest = "[]"
         and ?err4.0 = "Foreign ''invalid_grant''"]
      example_listening [of tenant_refresh_failed_env]
    by (simp add: tenant_refresh_failed_env_def example_env_def)
  from 1 2 3 4 5 6 7 show ?thesis by simp
qed

text \<open>
  C8. \<open>openbrowser\<close> ends the process with \<open>log.Fatal\<close> whenever the spawn for the
  platform fails or the platform is none of the three it knows. A run of \<open>Login\<close> whose
  listener started and whose browser launch fails this way ends there with that error:
  it makes no network call and no store write, leaves the store as it was, and spawns at
  most one process, so the launch is not tried again.
\<close>

theorem Login_browser_failure_fatal:
  assumes "startLoginServer_r env = Inr port"
    and "url = authorizeFormat clientID (redirectURL port) (randomString_r env) scopes"
    and "goos env = ''linux'' \<and> exec_Start_r env ''xdg-open'' [url] = Some err
       \<or> goos env = ''windows''
           \<and> exec_Start_r env ''rundll32'' [''url.dll,FileProtocolHandler'', url] = Some err
       \<or> goos env = ''darwin'' \<and> exec_Start_r env ''open'' [url] = Some err
       \<or> goos env \<noteq> ''linux'' \<and> goos env \<noteq> ''windows'' \<and> goos env \<noteq> ''darwin''
           \<and> err = Errorf ''unsupported platform'' []"
  shows "fst (openbrowser env url w0) = Exit err
    \<and> fst (Login env w) = Exit err
    \<and> network_calls (snd (Login env w)) = network_calls w
    \<and> writes (snd (Login env w)) = writes w
    \<and> store (snd (Login env w)) = store w
    \<and> length (spawns (snd (Login env w))) \<le> length (spawns w) + 1"
proof -
  have ob: "fst (openbrowser env url w') = Exit err" for w'
    using assms(3) by (auto simp add: openbrowser_def exec_Start_def)
  have sp: "length (spawns (snd (openbrowser env url w'))) \<le> length (spawns w') + 1" for w'
    by (simp add: openbrowser_def exec_Start_def spawns_log_event split: option.splits)
  have "fst (openAzureLoginPage env (redirectURL port) (log_event StartLoginServer w)) = Exit err"
    using ob assms(2) by (simp add: openAzureLoginPage_def)
  from Login_browser_failed [OF assms(1) this]
  have L: "Login env w =
      (Exit err, snd (openbrowser env url (log_event StartLoginServer w)))"
    using assms(2) by (simp add: openAzureLoginPage_def)
  show ?thesis
    using ob [of w0] sp [of "log_event StartLoginServer w"] openbrowser_frame [of env url "log_event StartLoginServer w"]
    by (simp add: L network_calls_log_event writes_log_event store_log_event spawns_log_event)
qed

theorem Login_browser_failure_fatal_witness:
  "fst (Login browser_failed_env stored_world) = Exit (Foreign ''executable file not found'')
   \<and> network_calls (snd (Login browser_failed_env stored_world)) = []
   \<and> store (snd (Login browser_failed_env stored_world)) =
       Some (example_credential 90000000000)"
proof -
  have port: "startLoginServer_r browser_failed_env = Inr 8080"
    by (simp add: browser_failed_env_def example_env_def)
  have url: "example_url =
      authorizeFormat clientID (redirectURL 8080) (randomString_r browser_failed_env) scopes"
    by (simp add: example_url_def browser_failed_env_def example_env_def)
  have failed: "goos browser_failed_env = ''linux''
        \<and> exec_Start_r browser_failed_env ''xdg-open'' [example_url] =
            Some (Foreign ''executable file not found'')
      \<or> goos browser_failed_env = ''windows''
        \<and> exec_Start_r browser_failed_env ''rundll32''
             [''url.dll,FileProtocolHandler'', example_url] =
            Some (Foreign ''executable file not found'')
      \<or> goos browser_failed_env = ''darwin''
        \<and> exec_Start_r browser_failed_env ''open'' [example_url] =
            Some (Foreign ''executable file not found'')
      \<or> goos browser_failed_env \<noteq> ''linux'' \<and> goos browser_failed_env \<noteq> ''windows''
        \<and> goos browser_failed_env \<noteq> ''darwin''
        \<and> Foreign ''executable file not found'' = Errorf ''unsupported platform'' []"
    by (simp add: browser_failed_env_def example_env_def)
  have before: "network_calls stored_world = []"
    "store stored_world = Some (example_credential 90000000000)"
    by (simp_all add: stored_world_def example_world_def network_calls_def)
  from Login_browser_failure_fatal [OF port url failed, of stored_world stored_world] before
  show ?thesis by simp
qed

text \<open>
  C1. The code does not do what the claim says: when tenant discovery answers 200 with a
  body that decodes to an empty \<open>value\<close> array, \<open>tenantResult.Value[0]\<close> panics with
  index out of range, and \<open>Login\<close> returns no error at all.
\<close>

theorem Login_empty_tenants_panics:
  "queryAuthorizationAPI_r no_tenants_env authorizationURL (''Bearer '' @ ''access1'') =
     (''tenants'', 200, None)
   \<and> json_Unmarshal_r no_tenants_env ''tenants'' = Inr \<lparr>Value = []\<rparr>
   \<and> fst (Login no_tenants_env (example_world None)) =
       Panic ''index out of range [0] with length 0''"
  by (simp add: no_tenants_env_def example_env_def example_world_def example_azureToken_def
      Login_def Login_callback_def startLoginServer_def openAzureLoginPage_def openbrowser_def
      exec_Start_def queryToken_def queryAuthorizationAPI_def Let_def)

end
